theory Spec2Isabelle
  imports Complex_Main "HOL-Library.AList"
begin

section \<open>Python values used by main.py\<close>

text \<open>
  The embedding follows \<^verbatim>\<open>src/main.py\<close>. A finite float is modelled by the real
  number it denotes, Python ints as \<open>int\<close>, strings and byte strings as \<open>string\<close>.
  The arithmetic on the box coordinates is single precision and is modelled with its
  rounding and its overflow (\<open>f32_round\<close> below); NaN and the sign of zero are not
  represented. A Python dict is an association list with distinct keys, in insertion
  order; \<open>AList.update\<close> is the assignment \<^verbatim>\<open>d[k] = v\<close> (in place for a present key,
  appended for a new one) and \<open>dict_get\<close> is \<^verbatim>\<open>d.get(k, default)\<close>.
  The message texts of the source are Russian; the model carries English renderings of
  them, since no property below depends on their wording.
\<close>

type_synonym bytes = string
type_synonym color = "int \<times> int \<times> int"
type_synonym point = "int \<times> int"

definition dict_get :: "('k \<times> 'v) list \<Rightarrow> 'k \<Rightarrow> 'v \<Rightarrow> 'v" where
  "dict_get d k dflt = (case map_of d k of None \<Rightarrow> dflt | Some v \<Rightarrow> v)"

text \<open>\<^verbatim>\<open>int(f)\<close> on a float truncates towards zero.\<close>

definition py_int :: "real \<Rightarrow> int" where
  "py_int r = (if 0 \<le> r then \<lfloor>r\<rfloor> else \<lceil>r\<rceil>)"

text \<open>\<^verbatim>\<open>str(n)\<close> for an int, as the f-string \<^verbatim>\<open>f"class_{class_id}"\<close> formats it.\<close>

definition digit_char :: "nat \<Rightarrow> char" where
  "digit_char n = ''0123456789'' ! (n mod 10)"

fun str_nat :: "nat \<Rightarrow> string" where
  "str_nat n = (if n < 10 then [digit_char n] else str_nat (n div 10) @ [digit_char n])"

declare str_nat.simps [simp del]

definition str_int :: "int \<Rightarrow> string" where
  "str_int i = (if i < 0 then ''-'' @ str_nat (nat (- i)) else str_nat (nat i))"

text \<open>
  The format specification \<^verbatim>\<open>.0%\<close>: the value times 100, rounded to an integer with
  ties to even, followed by a percent sign; a negative value keeps its sign.
\<close>

definition round_half_even :: "real \<Rightarrow> int" where
  "round_half_even r =
     (let f = \<lfloor>r\<rfloor>; d = r - of_int f
      in if d < 1 / 2 then f else if 1 / 2 < d then f + 1 else if even f then f else f + 1)"

definition format_percent0 :: "real \<Rightarrow> string" where
  "format_percent0 c =
     (if c < 0 then ''-'' else '''') @ str_nat (nat (round_half_even (\<bar>c\<bar> * 100))) @ ''%''"

text \<open>
  Single precision. The coordinates of a box are \<^verbatim>\<open>numpy.float32\<close> scalars, and a sum
  or difference of two of them is rounded to the nearest \<^verbatim>\<open>float32\<close>, ties to the even
  significand: 24 significant bits, spacing \<open>2 ^ -149\<close> below \<open>2 ^ -126\<close>, and infinity
  from \<open>2 ^ 128 - 2 ^ 103\<close> on. \<open>bit_length\<close> is the number of binary digits of a
  natural number; the subtraction \<open>bit_length n - 24\<close> on naturals stops at 0, which
  gives the fixed spacing of the subnormal range. \<open>np_div2\<close> is the division of such a
  scalar by the Python int 2, in single precision.
\<close>

datatype pyfloat = Finite real | PosInf | NegInf

fun bit_length :: "nat \<Rightarrow> nat" where
  "bit_length n = (if n = 0 then 0 else bit_length (n div 2) + 1)"

declare bit_length.simps [simp del]

definition f32_round :: "real \<Rightarrow> pyfloat" where
  "f32_round r =
     (let s = \<bar>r\<bar> * 2 ^ 149;
          k = bit_length (nat \<lfloor>s\<rfloor>) - 24;
          q = round_half_even (s / 2 ^ k);
          v = of_int q * 2 ^ k / 2 ^ 149
      in if 2 ^ 128 \<le> v then (if r < 0 then NegInf else PosInf)
         else Finite (if r < 0 then - v else v))"

fun np_div2 :: "pyfloat \<Rightarrow> pyfloat" where
  "np_div2 (Finite r) = f32_round (r / 2)"
| "np_div2 PosInf = PosInf"
| "np_div2 NegInf = NegInf"

datatype exn =
    ValueError string
  | TypeError string
  | AttributeError string
  | HTTPException int string
  | CapabilityError string
  | Cv2Error string
  | DanglingReference

text \<open>
  \<open>CapabilityError\<close> is an exception raised inside the detection capability,
  \<open>Cv2Error\<close> one raised by a drawing call of OpenCV;
  \<open>DanglingReference\<close> is the model's answer to an address outside the heap, which no
  Python reference can be. \<open>str_exn\<close> is \<^verbatim>\<open>str(e)\<close>.
\<close>

fun str_exn :: "exn \<Rightarrow> string" where
  "str_exn (ValueError m) = m"
| "str_exn (TypeError m) = m"
| "str_exn (AttributeError m) = m"
| "str_exn (HTTPException s d) = str_int s @ '': '' @ d"
| "str_exn (CapabilityError m) = m"
| "str_exn (Cv2Error m) = m"
| "str_exn DanglingReference = ''''"

section \<open>The detection capability and the detection records\<close>

text \<open>
  One row of \<^verbatim>\<open>results[0].boxes\<close>: the corner coordinates \<^verbatim>\<open>box.xyxy[0]\<close>, the score
  \<^verbatim>\<open>box.conf[0]\<close> and the class \<^verbatim>\<open>box.cls[0]\<close>, which the source truncates with
  \<^verbatim>\<open>int(...)\<close>. The capability is taken to return finite numbers, held in single
  precision.
\<close>

record box =
  box_xyxy :: "real \<times> real \<times> real \<times> real"
  box_conf :: real
  box_cls :: real

record yolo_result =
  boxes :: "box list option"

text \<open>The keyword arguments of one call of \<^verbatim>\<open>model.predict\<close>.\<close>

record predict_call =
  source :: string
  conf :: real
  iou :: real
  device :: string
  verbose :: bool
  save :: bool

text \<open>
  The loaded model: its label table \<^verbatim>\<open>model.names\<close> and its \<^verbatim>\<open>predict\<close> method, an
  opaque function of the keyword arguments and of the bytes of the file at \<open>source\<close>
  (\<open>None\<close> when there is no such file). \<open>Inl m\<close> is an exception with message \<open>m\<close>.
\<close>

record yolo =
  names :: "(int \<times> string) list"
  predict :: "predict_call \<Rightarrow> bytes option \<Rightarrow> string + yolo_result list"

text \<open>
  The dict appended to \<^verbatim>\<open>detections\<close>; the key \<^verbatim>\<open>'class'\<close> is \<open>det_class\<close>. The centre
  and the size are results of single-precision arithmetic and may be infinite.
\<close>

record detection =
  det_class :: string
  det_class_id :: int
  det_confidence :: real
  det_x :: pyfloat
  det_y :: pyfloat
  det_width :: pyfloat
  det_height :: pyfloat
  det_x1 :: real
  det_y1 :: real
  det_x2 :: real
  det_y2 :: real

section \<open>Images, the heap of pixel buffers and the drawing calls\<close>

text \<open>
  OpenCV is not part of the repository. A pixel buffer is modelled by the pixels it was
  decoded with and the sequence of drawing calls applied to it in place since; two
  buffers with equal records are pixel-identical. Buffers live in a heap (a list indexed
  by address), so that a call that draws on one buffer is seen to leave the others alone.
  A drawing call takes its points as C ints: it raises, before it draws anything, when a
  coordinate is outside \<open>-2 ^ 31 \<dots> 2 ^ 31 - 1\<close>.
\<close>

datatype draw_op =
    Rectangle point point color int
  | PutText string point int real color int

record image =
  img_shape :: "nat \<times> nat"
  pixels :: "color list list"
  drawn :: "draw_op list"

definition c_int :: "int \<Rightarrow> bool" where
  "c_int i \<longleftrightarrow> - (2 ^ 31) \<le> i \<and> i < 2 ^ 31"

definition c_point :: "point \<Rightarrow> bool" where
  "c_point pt \<longleftrightarrow> c_int (fst pt) \<and> c_int (snd pt)"

definition cv2_rectangle ::
  "image \<Rightarrow> point \<Rightarrow> point \<Rightarrow> color \<Rightarrow> int \<Rightarrow> exn + image" where
  "cv2_rectangle img pt1 pt2 col thickness =
     (if c_point pt1 \<and> c_point pt2
      then Inr (img\<lparr>drawn := drawn img @ [Rectangle pt1 pt2 col thickness]\<rparr>)
      else Inl (Cv2Error ''Overload resolution failed''))"

definition cv2_putText ::
  "image \<Rightarrow> string \<Rightarrow> point \<Rightarrow> int \<Rightarrow> real \<Rightarrow> color \<Rightarrow> int \<Rightarrow> exn + image" where
  "cv2_putText img txt org font font_scale col thickness =
     (if c_point org
      then Inr (img\<lparr>drawn := drawn img @ [PutText txt org font font_scale col thickness]\<rparr>)
      else Inl (Cv2Error ''Overload resolution failed''))"

definition FONT_HERSHEY_SIMPLEX :: int where
  "FONT_HERSHEY_SIMPLEX = 0"

text \<open>
  The library functions whose results the code only consumes: \<^verbatim>\<open>os.path.splitext\<close>,
  the image decoder behind \<^verbatim>\<open>cv2.imread\<close> (\<open>None\<close> for bytes that are not an image)
  and \<^verbatim>\<open>cv2.getTextSize\<close>, which returns \<open>((text_width, text_height), baseline)\<close>.
\<close>

record env =
  splitext :: "string \<Rightarrow> string \<times> string"
  imdecode :: "bytes \<Rightarrow> image option"
  getTextSize :: "string \<Rightarrow> int \<Rightarrow> real \<Rightarrow> int \<Rightarrow> (int \<times> int) \<times> int"

text \<open>
  The state the endpoints act on: the global \<^verbatim>\<open>model\<close> (\<open>None\<close> when loading failed),
  the files under \<^verbatim>\<open>UPLOAD_DIR\<close> and \<^verbatim>\<open>RESULT_DIR\<close> by file name, the heap of pixel
  buffers, and the calls made to the detection capability so far.
\<close>

record world =
  model :: "yolo option"
  uploads :: "string \<rightharpoonup> bytes"
  results :: "string \<rightharpoonup> image"
  heap :: "image list"
  predict_calls :: "predict_call list"

section \<open>process_with_yolo\<close>

text \<open>
  The body of the loop over the boxes builds one record. The sums and differences of the
  corners are taken on \<^verbatim>\<open>numpy.float32\<close> scalars, so each is rounded; \<^verbatim>\<open>float(...)\<close>
  then widens the result without changing its value. The function itself raises when the global model is \<open>None\<close>, records the call
  of \<^verbatim>\<open>model.predict\<close> with its keyword arguments, and lets an exception of the
  capability escape.
\<close>

definition make_detection :: "(int \<times> string) list \<Rightarrow> box \<Rightarrow> detection" where
  "make_detection model_names b =
     (case box_xyxy b of (x1, y1, x2, y2) \<Rightarrow>
        let confidence = box_conf b;
            class_id = py_int (box_cls b);
            class_name = dict_get model_names class_id (''class_'' @ str_int class_id);
            center_x = np_div2 (f32_round (x1 + x2));
            center_y = np_div2 (f32_round (y1 + y2));
            width = f32_round (x2 - x1);
            height = f32_round (y2 - y1)
        in \<lparr>det_class = class_name, det_class_id = class_id, det_confidence = confidence,
            det_x = center_x, det_y = center_y, det_width = width, det_height = height,
            det_x1 = x1, det_y1 = y1, det_x2 = x2, det_y2 = y2\<rparr>)"

definition process_with_yolo ::
  "world \<Rightarrow> string \<Rightarrow> real \<Rightarrow> (exn + detection list) \<times> world" where
  "process_with_yolo w image_path confidence_threshold =
     (case model w of
        None \<Rightarrow> (Inl (ValueError ''Model is not loaded''), w)
      | Some m \<Rightarrow>
          let call = \<lparr>source = image_path, conf = confidence_threshold, iou = 45 / 100,
                      device = ''cpu'', verbose = False, save = False\<rparr>;
              w' = w\<lparr>predict_calls := predict_calls w @ [call]\<rparr>
          in case predict m call (uploads w image_path) of
               Inl msg \<Rightarrow> (Inl (CapabilityError msg), w')
             | Inr res \<Rightarrow>
                 (Inr (case res of
                         [] \<Rightarrow> []
                       | r # _ \<Rightarrow>
                           (case boxes r of
                              None \<Rightarrow> []
                            | Some bs \<Rightarrow>
                                if length bs > 0 then map (make_detection (names m)) bs
                                else [])),
                  w'))"

section \<open>draw_predictions\<close>

datatype color_key = KStr string | KInt int

definition COLORS :: "(color_key \<times> color) list" where
  "COLORS =
     [(KStr ''flare'', (0, 0, 255)),
      (KStr ''fire'', (0, 165, 255)),
      (KStr ''smoke'', (128, 128, 128)),
      (KInt 0, (0, 0, 255)),
      (KInt 1, (0, 165, 255)),
      (KInt 2, (128, 128, 128))]"

definition select_color :: "string \<Rightarrow> int \<Rightarrow> color" where
  "select_color class_name class_id =
     dict_get COLORS (KStr class_name) (dict_get COLORS (KInt class_id) (255, 255, 255))"

definition label_text :: "string \<Rightarrow> real \<Rightarrow> string" where
  "label_text class_name confidence = class_name @ '' '' @ format_percent0 confidence"

text \<open>
  The body of the loop of \<^verbatim>\<open>draw_predictions\<close>, acting on the buffer \<open>annotated\<close>. It
  returns the exception raised, if any, and the buffer as the calls made so far left it.
\<close>

definition draw_detection :: "env \<Rightarrow> image \<Rightarrow> detection \<Rightarrow> exn option \<times> image" where
  "draw_detection e annotated d =
     (let x1 = py_int (det_x1 d);
          y1 = py_int (det_y1 d);
          x2 = py_int (det_x2 d);
          y2 = py_int (det_y2 d);
          class_name = det_class d;
          class_id = det_class_id d;
          confidence = det_confidence d;
          col = select_color class_name class_id;
          thickness = (if confidence > 1 / 2 then 3 else 2)
      in case cv2_rectangle annotated (x1, y1) (x2, y2) col thickness of
           Inl ex \<Rightarrow> (Some ex, annotated)
         | Inr annotated \<Rightarrow>
             (let label = label_text class_name confidence;
                  font = FONT_HERSHEY_SIMPLEX;
                  font_scale = 6 / 10;
                  text_thickness = 2
              in case getTextSize e label font font_scale text_thickness of
                   ((text_width, text_height), baseline) \<Rightarrow>
                     (let text_bg_y1 = max 0 (y1 - text_height - 10);
                          text_bg_y2 = y1;
                          text_bg_x1 = x1;
                          text_bg_x2 = x1 + text_width
                      in case cv2_rectangle annotated (text_bg_x1, text_bg_y1)
                                (text_bg_x2, text_bg_y2) col (- 1) of
                           Inl ex \<Rightarrow> (Some ex, annotated)
                         | Inr annotated \<Rightarrow>
                             (case cv2_putText annotated label (x1, y1 - 5) font font_scale
                                     (255, 255, 255) text_thickness of
                                Inl ex \<Rightarrow> (Some ex, annotated)
                              | Inr annotated \<Rightarrow> (None, annotated)))))"

text \<open>
  The loop over the detections: every drawing call updates the heap at the address
  \<open>annotated\<close>, and the first exception ends the loop.
\<close>

fun draw_loop ::
  "env \<Rightarrow> nat \<Rightarrow> image list \<Rightarrow> detection list \<Rightarrow> exn option \<times> image list" where
  "draw_loop e annotated hp [] = (None, hp)"
| "draw_loop e annotated hp (d # ds) =
     (case draw_detection e (hp ! annotated) d of
        (Some ex, img) \<Rightarrow> (Some ex, hp[annotated := img])
      | (None, img) \<Rightarrow> draw_loop e annotated (hp[annotated := img]) ds)"

text \<open>
  \<^verbatim>\<open>image.copy()\<close> allocates a new buffer with the contents of the source; the loop then
  draws on the copy. A \<open>None\<close> image has no \<^verbatim>\<open>copy\<close> attribute. The heap is returned
  with the result, also when an exception is raised.
\<close>

definition draw_predictions ::
  "env \<Rightarrow> image list \<Rightarrow> nat option \<Rightarrow> detection list \<Rightarrow> (exn + nat) \<times> image list" where
  "draw_predictions e h image_ref detections =
     (case image_ref of
        None \<Rightarrow> (Inl (AttributeError ''NoneType object has no attribute copy''), h)
      | Some a \<Rightarrow>
          if a < length h then
            let annotated = length h;
                h1 = h @ [h ! a]
            in (case draw_loop e annotated h1 detections of
                  (Some ex, h') \<Rightarrow> (Inl ex, h')
                | (None, h') \<Rightarrow> (Inr annotated, h'))
          else (Inl DanglingReference, h))"

text \<open>
  A detection lies within an image when its corners are pixel coordinates of that image,
  in order. The sides of an image and the sizes of a text are C ints in OpenCV; \<open>c_sizes\<close>
  asks that they stay below \<open>2 ^ 30\<close> in absolute value for the image and the label of
  a detection.
\<close>

definition within_image :: "image \<Rightarrow> detection \<Rightarrow> bool" where
  "within_image img d \<longleftrightarrow>
     (case img_shape img of
        (height, width) \<Rightarrow>
          0 \<le> det_x1 d \<and> det_x1 d \<le> det_x2 d \<and> det_x2 d \<le> real width \<and>
          0 \<le> det_y1 d \<and> det_y1 d \<le> det_y2 d \<and> det_y2 d \<le> real height)"

definition c_sizes :: "env \<Rightarrow> image \<Rightarrow> detection \<Rightarrow> bool" where
  "c_sizes e img d \<longleftrightarrow>
     (case img_shape img of
        (height, width) \<Rightarrow>
          (case getTextSize e (label_text (det_class d) (det_confidence d))
                  FONT_HERSHEY_SIMPLEX (6 / 10) 2 of
             ((text_width, text_height), baseline) \<Rightarrow>
               height < 2 ^ 30 \<and> width < 2 ^ 30 \<and>
               \<bar>text_width\<bar> < 2 ^ 30 \<and> \<bar>text_height\<bar> < 2 ^ 30))"

section \<open>process_image\<close>

text \<open>The loop that fills \<^verbatim>\<open>class_stats\<close>, and its body.\<close>

definition class_stats_step :: "(string \<times> int) list \<Rightarrow> detection \<Rightarrow> (string \<times> int) list" where
  "class_stats_step stats d =
     (let class_name = det_class d
      in AList.update class_name (dict_get stats class_name 0 + 1) stats)"

definition class_stats :: "detection list \<Rightarrow> (string \<times> int) list" where
  "class_stats detections = foldl class_stats_step [] detections"

record upload_file =
  uf_filename :: "string option"
  uf_contents :: bytes

record model_info =
  mi_name :: string
  mi_path :: string
  mi_classes :: "string list"

record response =
  r_success :: bool
  r_original_image :: string
  r_result_image :: string
  r_total_detections :: nat
  r_class_stats :: "(string \<times> int) list"
  r_detections :: "detection list"
  r_image_width :: nat
  r_image_height :: nat
  r_processing_time :: real
  r_confidence_threshold :: real
  r_model_info :: model_info

definition MODEL_PATH :: string where
  "MODEL_PATH = ''E:/Python/MIFI/project-practice/models/trained/best_model.pt''"

text \<open>\<^verbatim>\<open>cv2.imread\<close> of a file under \<^verbatim>\<open>UPLOAD_DIR\<close>: \<open>None\<close> when it cannot be read.\<close>

definition cv2_imread :: "env \<Rightarrow> world \<Rightarrow> string \<Rightarrow> image option" where
  "cv2_imread e w name = (case uploads w name of None \<Rightarrow> None | Some bs \<Rightarrow> imdecode e bs)"

text \<open>
  \<^verbatim>\<open>os.path.splitext(file.filename)[1] or ".jpg"\<close>: an empty extension is replaced.
\<close>

definition file_extension_of :: "env \<Rightarrow> string \<Rightarrow> string" where
  "file_extension_of e fname =
     (let ext = snd (splitext e fname) in if ext = [] then ''.jpg'' else ext)"

text \<open>
  The body of the \<^verbatim>\<open>try\<close> block. The values of \<^verbatim>\<open>uuid.uuid4()\<close> and of the two readings
  of \<^verbatim>\<open>time.time()\<close> are arguments. A raised exception leaves the world as it was when
  it was raised. Writing the two files and encoding the annotated image are taken to
  succeed; \<^verbatim>\<open>file.filename\<close> may be \<open>None\<close>, on which \<^verbatim>\<open>os.path.splitext\<close> raises.
\<close>

definition process_image_try ::
  "env \<Rightarrow> world \<Rightarrow> yolo \<Rightarrow> upload_file \<Rightarrow> real \<Rightarrow> string \<Rightarrow> real \<Rightarrow> real
     \<Rightarrow> (exn + response) \<times> world" where
  "process_image_try e w m file confidence uuid4 start_time end_time =
     (case uf_filename file of
        None \<Rightarrow> (Inl (TypeError ''expected str, bytes or os.PathLike object, not NoneType''), w)
      | Some fname \<Rightarrow>
          let file_extension = file_extension_of e fname;
              filename = uuid4 @ file_extension;
              w1 = w\<lparr>uploads := (uploads w)(filename \<mapsto> uf_contents file)\<rparr>
          in case cv2_imread e w1 filename of
               None \<Rightarrow> (Inl (HTTPException 400 ''Could not load the image''), w1)
             | Some img \<Rightarrow>
                 let image_ref = length (heap w1);
                     w2 = w1\<lparr>heap := heap w1 @ [img]\<rparr>
                 in case img_shape img of (height, width) \<Rightarrow>
                    (case process_with_yolo w2 filename confidence of
                       (Inl ex, w3) \<Rightarrow> (Inl ex, w3)
                     | (Inr detections, w3) \<Rightarrow>
                         (case draw_predictions e (heap w3) (Some image_ref) detections of
                            (Inl ex, h') \<Rightarrow> (Inl ex, w3\<lparr>heap := h'\<rparr>)
                          | (Inr annotated_image, h') \<Rightarrow>
                              let result_filename = ''result_'' @ filename;
                                  w4 = w3\<lparr>heap := h',
                                          results := (results w3)
                                            (result_filename \<mapsto> h' ! annotated_image)\<rparr>
                              in (Inr \<lparr>r_success = True,
                                       r_original_image = filename,
                                       r_result_image = result_filename,
                                       r_total_detections = length detections,
                                       r_class_stats = class_stats detections,
                                       r_detections = detections,
                                       r_image_width = width,
                                       r_image_height = height,
                                       r_processing_time = end_time - start_time,
                                       r_confidence_threshold = confidence,
                                       r_model_info =
                                         \<lparr>mi_name = ''YOLO local model'',
                                          mi_path = MODEL_PATH,
                                          mi_classes = map snd (names m)\<rparr>\<rparr>,
                                  w4))))"

text \<open>
  The endpoint: the check of the global \<^verbatim>\<open>model\<close> comes before the \<^verbatim>\<open>try\<close>; the
  handler \<^verbatim>\<open>except Exception\<close> turns every exception raised inside the block into an
  \<^verbatim>\<open>HTTPException\<close> with status 500.
\<close>

definition process_image ::
  "env \<Rightarrow> world \<Rightarrow> upload_file \<Rightarrow> real \<Rightarrow> string \<Rightarrow> real \<Rightarrow> real
     \<Rightarrow> (exn + response) \<times> world" where
  "process_image e w file confidence uuid4 start_time end_time =
     (case model w of
        None \<Rightarrow> (Inl (HTTPException 503 ''YOLO model is not loaded''), w)
      | Some m \<Rightarrow>
          (case process_image_try e w m file confidence uuid4 start_time end_time of
             (Inl ex, w') \<Rightarrow>
               (Inl (HTTPException 500 (''Processing error: '' @ str_exn ex)), w')
           | (Inr r, w') \<Rightarrow> (Inr r, w')))"

section \<open>Sample inputs\<close>

text \<open>
  An image of 48 rows and 64 columns, library functions, a model with two labels that reports two
  boxes (the second of a class its label table lacks), a world holding that model, an
  upload that decodes and one that does not.
\<close>

definition sample_image :: image where
  "sample_image =
     \<lparr>img_shape = (48, 64),
      pixels = replicate 48 (replicate 64 (30, 60, 90)),
      drawn = []\<rparr>"

definition sample_env :: env where
  "sample_env =
     \<lparr>splitext =
        (\<lambda>p. if p = ''flare.png'' then (''flare'', ''.png'')
             else if p = ''notes.txt'' then (''notes'', ''.txt'')
             else (p, '''')),
      imdecode = (\<lambda>bs. if bs = ''PNG'' then Some sample_image else None),
      getTextSize = (\<lambda>txt font font_scale thickness. ((11 * int (length txt), 13), 5))\<rparr>"

definition sample_boxes :: "box list" where
  "sample_boxes =
     [\<lparr>box_xyxy = (10, 0, 50, 40), box_conf = 9 / 10, box_cls = 0\<rparr>,
      \<lparr>box_xyxy = (3, 25, 8, 31), box_conf = 3 / 10, box_cls = 7\<rparr>]"

definition sample_model :: yolo where
  "sample_model =
     \<lparr>names = [(0, ''flare''), (1, ''fire'')],
      predict = (\<lambda>call content. Inr [\<lparr>boxes = Some sample_boxes\<rparr>])\<rparr>"

definition sample_world :: world where
  "sample_world =
     \<lparr>model = Some sample_model, uploads = Map.empty, results = Map.empty,
      heap = [], predict_calls = []\<rparr>"

definition sample_detections :: "detection list" where
  "sample_detections = map (make_detection (names sample_model)) sample_boxes"

text \<open>
  A box whose corners are the single-precision values nearest to 100.3, 0.1, 200.7 and
  0.2, and a world whose model reports it.
\<close>

definition rounding_box :: box where
  "rounding_box =
     \<lparr>box_xyxy = (6573261 / 65536, 13421773 / 134217728, 13153075 / 65536, 13421773 / 67108864),
      box_conf = 3 / 4, box_cls = 0\<rparr>"

definition rounding_world :: world where
  "rounding_world =
     \<lparr>model = Some \<lparr>names = [(0, ''flare'')],
                     predict = (\<lambda>call content. Inr [\<lparr>boxes = Some [rounding_box]\<rparr>])\<rparr>,
      uploads = Map.empty, results = Map.empty, heap = [], predict_calls = []\<rparr>"

definition rounding_detection :: detection where
  "rounding_detection = make_detection [(0, ''flare'')] rounding_box"

definition png_upload :: upload_file where
  "png_upload = \<lparr>uf_filename = Some ''flare.png'', uf_contents = ''PNG''\<rparr>"

definition text_upload :: upload_file where
  "text_upload = \<lparr>uf_filename = Some ''notes.txt'', uf_contents = ''hello''\<rparr>"

section \<open>Single precision\<close>

lemma bit_length_0 [simp]: "bit_length 0 = 0"
  by (simp add: bit_length.simps)

lemma bit_length_Suc_0 [simp]: "bit_length (Suc 0) = 1"
  by (subst bit_length.simps) simp

lemma bit_length_Bit0 [simp]:
  "bit_length (numeral (Num.Bit0 n)) = bit_length (numeral n) + 1"
  by (subst bit_length.simps) simp

lemma bit_length_Bit1 [simp]:
  "bit_length (numeral (Num.Bit1 n)) = bit_length (numeral n) + 1"
  by (subst bit_length.simps) simp

lemma round_half_even_error: "\<bar>real_of_int (round_half_even t) - t\<bar> \<le> 1 / 2"
proof -
  have "real_of_int \<lfloor>t\<rfloor> \<le> t" and "t < real_of_int \<lfloor>t\<rfloor> + 1"
    by linarith+
  then show ?thesis
    by (auto simp: round_half_even_def Let_def)
qed

lemma bit_length_lower: "0 < n \<Longrightarrow> 2 ^ (bit_length n - 1) \<le> n"
proof (induction n rule: bit_length.induct)
  case (1 n)
  show ?case
  proof (cases "n div 2 = 0")
    case True
    with "1.prems" have "n = 1" by presburger
    then show ?thesis by simp
  next
    case False
    with "1.IH" "1.prems" have ih: "2 ^ (bit_length (n div 2) - 1) \<le> n div 2"
      by simp
    have pos: "0 < bit_length (n div 2)"
      using False by (subst bit_length.simps) simp
    have "bit_length n = Suc (bit_length (n div 2))"
      using "1.prems" by (subst bit_length.simps) simp
    then have "(2::nat) ^ (bit_length n - 1) = 2 * 2 ^ (bit_length (n div 2) - 1)"
      using pos by (cases "bit_length (n div 2)") simp_all
    also have "\<dots> \<le> 2 * (n div 2)"
      using ih by simp
    also have "\<dots> \<le> n"
      by simp
    finally show ?thesis .
  qed
qed

text \<open>
  Rounding to single precision moves a value by at most half a unit in the last place:
  \<open>2 ^ -150\<close> in the subnormal range, a fraction \<open>2 ^ -24\<close> of the value above it.
\<close>

lemma f32_round_error:
  assumes "f32_round r = Finite v"
  shows "\<bar>v - r\<bar> \<le> 1 / 2 ^ 150 + \<bar>r\<bar> / 2 ^ 24"
proof -
  define c :: real where "c = 2 ^ 149"
  define s where "s = \<bar>r\<bar> * c"
  define n where "n = nat \<lfloor>s\<rfloor>"
  define k where "k = bit_length n - 24"
  define q where "q = round_half_even (s / 2 ^ k)"
  define v0 where "v0 = real_of_int q * 2 ^ k / c"
  have cpos: "0 < c"
    by (simp add: c_def)
  have s0: "0 \<le> s"
    using cpos by (simp add: s_def)
  have "f32_round r =
          (if 2 ^ 128 \<le> v0 then (if r < 0 then NegInf else PosInf)
           else Finite (if r < 0 then - v0 else v0))"
    unfolding f32_round_def Let_def v0_def q_def k_def n_def s_def c_def by (rule refl)
  with assms have v: "v = (if r < 0 then - v0 else v0)"
    by (simp split: if_splits)
  have "\<bar>real_of_int q - s / 2 ^ k\<bar> \<le> 1 / 2"
    unfolding q_def by (rule round_half_even_error)
  then have "\<bar>real_of_int q - s / 2 ^ k\<bar> * 2 ^ k \<le> 1 / 2 * 2 ^ k"
    by (rule mult_right_mono) simp
  moreover have "\<bar>real_of_int q - s / 2 ^ k\<bar> * 2 ^ k = \<bar>real_of_int q * 2 ^ k - s\<bar>"
  proof -
    have "(real_of_int q - s / 2 ^ k) * 2 ^ k = real_of_int q * 2 ^ k - s"
      by (simp add: left_diff_distrib)
    moreover have "\<bar>real_of_int q - s / 2 ^ k\<bar> * 2 ^ k = \<bar>(real_of_int q - s / 2 ^ k) * 2 ^ k\<bar>"
      by (simp add: abs_mult)
    ultimately show ?thesis by simp
  qed
  ultimately have qs: "\<bar>real_of_int q * 2 ^ k - s\<bar> \<le> 2 ^ k / 2"
    by simp
  have pow: "(2::real) ^ k \<le> 1 + s / 2 ^ 23"
  proof (cases "k = 0")
    case True
    with s0 show ?thesis by simp
  next
    case False
    then have bl: "bit_length n = k + 24" and npos: "0 < n"
      by (auto simp: k_def intro!: gr0I)
    have "k + 24 - 1 = k + 23"
      by simp
    with bit_length_lower [OF npos] have "2 ^ (k + 23) \<le> n"
      by (simp only: bl)
    then have "(2::real) ^ (k + 23) \<le> real n"
      by (metis of_nat_le_iff of_nat_numeral of_nat_power)
    also have "real n \<le> s"
      using s0 by (simp add: n_def)
    finally have "(2::real) ^ k * 2 ^ 23 \<le> s"
      by (simp add: power_add)
    then have "(2::real) ^ k \<le> s / 2 ^ 23"
      by (simp add: le_divide_eq)
    then show ?thesis by simp
  qed
  have "\<bar>v - r\<bar> = \<bar>v0 - \<bar>r\<bar>\<bar>"
    unfolding v by (cases "r < 0") (simp_all add: abs_if)
  also have "v0 - \<bar>r\<bar> = (real_of_int q * 2 ^ k - s) / c"
    using cpos by (simp add: v0_def s_def diff_divide_distrib)
  also have "\<bar>(real_of_int q * 2 ^ k - s) / c\<bar> = \<bar>real_of_int q * 2 ^ k - s\<bar> / c"
    using cpos by (simp add: abs_divide)
  also have "\<dots> \<le> (2 ^ k / 2) / c"
    by (rule divide_right_mono [OF qs]) (use cpos in simp)
  also have "\<dots> \<le> ((1 + s / 2 ^ 23) / 2) / c"
  proof (rule divide_right_mono)
    show "(2::real) ^ k / 2 \<le> (1 + s / 2 ^ 23) / 2"
      using pow by simp
    show "0 \<le> c"
      using cpos by simp
  qed
  also have "\<dots> = 1 / (2 * c) + \<bar>r\<bar> / 2 ^ 24"
    using cpos by (simp add: s_def add_divide_distrib)
  also have "1 / (2 * c) = 1 / 2 ^ 150"
    by (simp add: c_def)
  finally show ?thesis .
qed

lemma np_div2_error:
  assumes "np_div2 (f32_round S) = Finite v"
  shows "\<bar>v - S / 2\<bar> \<le> 1 / 2 ^ 149 + \<bar>S\<bar> / 2 ^ 23"
proof -
  from assms obtain v1 where v1: "f32_round S = Finite v1" and v: "f32_round (v1 / 2) = Finite v"
    by (cases "f32_round S") simp_all
  from f32_round_error [OF v1] have e1: "\<bar>v1 - S\<bar> \<le> 1 / 2 ^ 150 + \<bar>S\<bar> / 2 ^ 24" .
  from f32_round_error [OF v] have e2: "\<bar>v - v1 / 2\<bar> \<le> 1 / 2 ^ 150 + \<bar>v1 / 2\<bar> / 2 ^ 24" .
  from e1 e2 show ?thesis
    by (simp add: abs_if split: if_splits)
qed

section \<open>The class statistics\<close>

lemma update_sum_snd:
  "sum_list (map snd (AList.update k (dict_get al k 0 + 1) al)) = sum_list (map snd al) + (1::int)"
  by (induction al) (auto simp: dict_get_def)

lemma dict_get_update:
  "dict_get (AList.update k v al) k' dflt = (if k' = k then v else dict_get al k' dflt)"
  by (simp add: dict_get_def update_conv')

lemma dict_get_in_set:
  "distinct (map fst al) \<Longrightarrow> (k, v) \<in> set al \<Longrightarrow> dict_get al k dflt = v"
  by (simp add: dict_get_def)

lemma class_stats_step_eq:
  "class_stats_step stats d =
     AList.update (det_class d) (dict_get stats (det_class d) 0 + 1) stats"
  by (simp add: class_stats_step_def Let_def)

lemma foldl_count_sum:
  "sum_list (map snd (foldl class_stats_step acc ds)) = sum_list (map snd acc) + int (length ds)"
  by (induction ds arbitrary: acc) (simp_all add: class_stats_step_eq update_sum_snd)

lemma foldl_count_keys:
  "fst ` set (foldl class_stats_step acc ds) = fst ` set acc \<union> det_class ` set ds"
  by (induction ds arbitrary: acc) (auto simp: class_stats_step_eq dom_update)

lemma foldl_count_distinct:
  "distinct (map fst acc) \<Longrightarrow> distinct (map fst (foldl class_stats_step acc ds))"
  by (induction ds arbitrary: acc) (simp_all add: class_stats_step_eq distinct_update)

lemma foldl_count_get:
  "dict_get (foldl class_stats_step acc ds) k 0 = dict_get acc k 0 + int (count_list (map det_class ds) k)"
  by (induction ds arbitrary: acc) (simp_all add: class_stats_step_eq dict_get_update)

lemma class_stats_entry:
  assumes "(k, n) \<in> set (class_stats D)"
  shows "n = int (count_list (map det_class D) k) \<and> 0 < n"
proof -
  have dist: "distinct (map fst (class_stats D))"
    by (simp add: class_stats_def foldl_count_distinct)
  have "dict_get (class_stats D) k 0 = n"
    using dict_get_in_set [OF dist assms] .
  moreover have "dict_get (class_stats D) k 0 = int (count_list (map det_class D) k)"
    using foldl_count_get [of "[]" D k] by (simp add: class_stats_def dict_get_def)
  ultimately have n: "n = int (count_list (map det_class D) k)"
    by simp
  have "k \<in> fst ` set (class_stats D)"
    using assms by force
  then have "k \<in> set (map det_class D)"
    by (simp add: class_stats_def foldl_count_keys)
  then have "count_list (map det_class D) k \<noteq> 0"
    by (simp only: count_list_0_iff not_not)
  with n show ?thesis by simp
qed

text \<open>
  Claim C3. For every list of detections, the keys of \<open>class_stats\<close> are exactly the
  class labels that occur in the list, each key occurs once and carries the number of
  its occurrences, which is positive (no key has count zero), and the counts add up to
  the length of the list.
\<close>

theorem class_stats_keys_and_total:
  "fst ` set (class_stats D) = det_class ` set D
   \<and> distinct (map fst (class_stats D))
   \<and> (\<forall>(k, n) \<in> set (class_stats D). n = int (count_list (map det_class D) k) \<and> 0 < n)
   \<and> sum_list (map snd (class_stats D)) = int (length D)"
proof (intro conjI)
  show "fst ` set (class_stats D) = det_class ` set D"
    by (simp add: class_stats_def foldl_count_keys)
  show "distinct (map fst (class_stats D))"
    by (simp add: class_stats_def foldl_count_distinct)
  show "\<forall>(k, n) \<in> set (class_stats D). n = int (count_list (map det_class D) k) \<and> 0 < n"
    using class_stats_entry by blast
  show "sum_list (map snd (class_stats D)) = int (length D)"
    by (simp add: class_stats_def foldl_count_sum)
qed

lemma sample_detections_eval:
  "sample_detections =
     [\<lparr>det_class = ''flare'', det_class_id = 0, det_confidence = 9 / 10,
       det_x = Finite 30, det_y = Finite 20, det_width = Finite 40, det_height = Finite 40,
       det_x1 = 10, det_y1 = 0, det_x2 = 50, det_y2 = 40\<rparr>,
      \<lparr>det_class = ''class_7'', det_class_id = 7, det_confidence = 3 / 10,
       det_x = Finite (11 / 2), det_y = Finite 28, det_width = Finite 5, det_height = Finite 6,
       det_x1 = 3, det_y1 = 25, det_x2 = 8, det_y2 = 31\<rparr>]"
  by (simp add: sample_detections_def sample_boxes_def sample_model_def make_detection_def
      py_int_def dict_get_def str_int_def str_nat.simps digit_char_def
      f32_round_def round_half_even_def Let_def)

lemma class_stats_sample: "class_stats sample_detections = [(''flare'', 1), (''class_7'', 1)]"
  by (simp add: sample_detections_eval class_stats_def class_stats_step_eq dict_get_def)

theorem class_stats_keys_and_total_witness:
  "class_stats sample_detections = [(''flare'', 1), (''class_7'', 1)]
   \<and> fst ` set (class_stats sample_detections) = det_class ` set sample_detections
   \<and> distinct (map fst (class_stats sample_detections))
   \<and> sum_list (map snd (class_stats sample_detections)) = int (length sample_detections)"
  using class_stats_keys_and_total [of sample_detections] class_stats_sample
  by blast

section \<open>The renderer\<close>

lemma draw_detection_fields:
  "img_shape (snd (draw_detection e img d)) = img_shape img"
  "pixels (snd (draw_detection e img d)) = pixels img"
  by (auto simp: draw_detection_def cv2_rectangle_def cv2_putText_def Let_def
      split: prod.splits sum.splits if_splits)






lemma py_int_within:
  assumes "0 \<le> r" and "r \<le> real n"
  shows "0 \<le> py_int r \<and> py_int r \<le> int n"
proof -
  have "\<lfloor>r\<rfloor> \<le> \<lfloor>real n\<rfloor>"
    using assms(2) by (rule floor_mono)
  with assms(1) show ?thesis
    by (simp add: py_int_def)
qed

text \<open>A detection within the image, with sizes in range, is drawn without an exception.\<close>

lemma draw_detection_within:
  assumes "within_image img d" and "c_sizes e img d"
  shows "fst (draw_detection e img d) = None"
proof -
  obtain height width where shape: "img_shape img = (height, width)"
    by (metis surj_pair)
  obtain tw th bl where size:
    "getTextSize e (label_text (det_class d) (det_confidence d))
       FONT_HERSHEY_SIMPLEX (6 / 10) 2 = ((tw, th), bl)"
    by (metis surj_pair)
  from assms(2) shape size have lim: "int height < 2 ^ 30" "int width < 2 ^ 30"
    "\<bar>tw\<bar> < 2 ^ 30" "\<bar>th\<bar> < 2 ^ 30"
    by (simp_all add: c_sizes_def)
  from assms(1) shape have
    x1: "0 \<le> py_int (det_x1 d) \<and> py_int (det_x1 d) \<le> int width" and
    x2: "0 \<le> py_int (det_x2 d) \<and> py_int (det_x2 d) \<le> int width" and
    y1: "0 \<le> py_int (det_y1 d) \<and> py_int (det_y1 d) \<le> int height" and
    y2: "0 \<le> py_int (det_y2 d) \<and> py_int (det_y2 d) \<le> int height"
    by (auto simp: within_image_def intro!: py_int_within)
  have box: "c_point (py_int (det_x1 d), py_int (det_y1 d))"
    "c_point (py_int (det_x2 d), py_int (det_y2 d))"
    using x1 x2 y1 y2 lim by (simp_all add: c_point_def c_int_def)
  have bg: "c_point (py_int (det_x1 d), max 0 (py_int (det_y1 d) - th - 10))"
    "c_point (py_int (det_x1 d) + tw, py_int (det_y1 d))"
    using x1 y1 lim by (simp_all add: c_point_def c_int_def) linarith+
  have org: "c_point (py_int (det_x1 d), py_int (det_y1 d) - 5)"
    using x1 y1 lim by (simp add: c_point_def c_int_def)
  show ?thesis
    using box bg org size
    by (simp add: draw_detection_def cv2_rectangle_def cv2_putText_def Let_def)
qed

lemma draw_loop_within:
  assumes "n < length hp"
    and "\<forall>d \<in> set ds. within_image (hp ! n) d \<and> c_sizes e (hp ! n) d"
  shows "fst (draw_loop e n hp ds) = None"
  using assms
proof (induction ds arbitrary: hp)
  case Nil
  then show ?case by simp
next
  case (Cons d ds)
  obtain x img where step: "draw_detection e (hp ! n) d = (x, img)"
    by (metis surj_pair)
  have "within_image (hp ! n) d" and "c_sizes e (hp ! n) d"
    using Cons.prems(2) by simp_all
  from draw_detection_within [OF this] step have x: "x = None"
    by simp
  have shape: "img_shape img = img_shape (hp ! n)"
    using draw_detection_fields(1) [of e "hp ! n" d] step by simp
  have len: "n < length (hp[n := img])"
    using Cons.prems(1) by simp
  have "\<forall>d' \<in> set ds. within_image (hp[n := img] ! n) d' \<and> c_sizes e (hp[n := img] ! n) d'"
    using Cons.prems shape by (simp add: within_image_def c_sizes_def)
  from Cons.IH [OF len this] step x show ?case
    by simp
qed

text \<open>
  Claim C4. Rendering an image with an empty list of detections returns a new buffer,
  at a fresh address, whose contents equal those of the source image, every earlier buffer
  staying as it was. Rendering an image with a list of detections that lie within the
  image, the sizes being in range, returns an annotated image and raises nothing.
\<close>

theorem draw_predictions_empty_copy:
  assumes "a < length h"
  shows "draw_predictions e h (Some a) [] = (Inr (length h), h @ [h ! a])
         \<and> ((\<forall>d \<in> set D. within_image (h ! a) d \<and> c_sizes e (h ! a) d) \<longrightarrow>
              (\<exists>h'. draw_predictions e h (Some a) D = (Inr (length h), h')))"
proof
  show "draw_predictions e h (Some a) [] = (Inr (length h), h @ [h ! a])"
    using assms by (simp add: draw_predictions_def Let_def)
next
  show "(\<forall>d \<in> set D. within_image (h ! a) d \<and> c_sizes e (h ! a) d) \<longrightarrow>
          (\<exists>h'. draw_predictions e h (Some a) D = (Inr (length h), h'))"
  proof
    assume wf: "\<forall>d \<in> set D. within_image (h ! a) d \<and> c_sizes e (h ! a) d"
    have len: "length h < length (h @ [h ! a])"
      by simp
    have "\<forall>d \<in> set D. within_image ((h @ [h ! a]) ! length h) d
            \<and> c_sizes e ((h @ [h ! a]) ! length h) d"
      using wf by simp
    from draw_loop_within [OF len this]
    obtain hp where "draw_loop e (length h) (h @ [h ! a]) D = (None, hp)"
      by (metis prod.collapse)
    then show "\<exists>h'. draw_predictions e h (Some a) D = (Inr (length h), h')"
      using assms by (simp add: draw_predictions_def Let_def)
  qed
qed

lemma sample_getTextSize:
  "getTextSize sample_env txt font font_scale thickness = ((11 * int (length txt), 13), 5)"
  by (simp add: sample_env_def)

lemma sample_labels:
  "label_text ''flare'' (9 / 10) = ''flare 90%''"
  "label_text ''class_7'' (3 / 10) = ''class_7 30%''"
  by (simp_all add: label_text_def format_percent0_def round_half_even_def str_nat.simps
      digit_char_def)

lemma sample_detections_within:
  "\<forall>d \<in> set sample_detections.
     within_image ([sample_image] ! 0) d \<and> c_sizes sample_env ([sample_image] ! 0) d"
  by (simp add: sample_detections_eval within_image_def c_sizes_def sample_image_def
      sample_getTextSize sample_labels)

theorem draw_predictions_empty_copy_witness:
  "draw_predictions sample_env [sample_image] (Some 0) [] = (Inr 1, [sample_image, sample_image])
   \<and> (\<exists>h'. draw_predictions sample_env [sample_image] (Some 0) sample_detections
              = (Inr 1, h'))"
  using draw_predictions_empty_copy [of 0 "[sample_image]" sample_env sample_detections]
    sample_detections_within
  by simp








section \<open>The detector adapter\<close>

lemma process_with_yolo_unloaded:
  "model w = None \<Longrightarrow>
     process_with_yolo w p t = (Inl (ValueError ''Model is not loaded''), w)"
  by (simp add: process_with_yolo_def)

lemma process_with_yolo_world:
  "model w = Some m \<Longrightarrow>
     snd (process_with_yolo w p t) =
       w\<lparr>predict_calls := predict_calls w @
            [\<lparr>source = p, conf = t, iou = 45 / 100, device = ''cpu'',
              verbose = False, save = False\<rparr>]\<rparr>"
  by (simp add: process_with_yolo_def Let_def split: sum.splits)

lemma process_with_yolo_rows:
  assumes "model w = Some m"
    and "predict m \<lparr>source = p, conf = t, iou = 45 / 100, device = ''cpu'',
                     verbose = False, save = False\<rparr> (uploads w p) = Inr (r # rs)"
    and "boxes r = Some bs"
  shows "fst (process_with_yolo w p t) = Inr (map (make_detection (names m)) bs)"
  using assms by (simp add: process_with_yolo_def Let_def)

lemma process_with_yolo_made:
  assumes "process_with_yolo w p t = (Inr ds, w')" and "d \<in> set ds"
  shows "\<exists>m b. model w = Some m \<and> d = make_detection (names m) b"
  using assms
  by (auto simp: process_with_yolo_def Let_def
      split: option.splits sum.splits list.splits if_splits)

lemma make_detection_label:
  "det_class_id (make_detection nm b) = py_int (box_cls b)"
  "map_of nm (py_int (box_cls b)) = None \<Longrightarrow>
     det_class (make_detection nm b) = ''class_'' @ str_int (py_int (box_cls b))"
  "map_of nm (py_int (box_cls b)) = Some l \<Longrightarrow> det_class (make_detection nm b) = l"
  by (simp_all add: make_detection_def dict_get_def Let_def split: prod.splits)

text \<open>
  Claim C6. When the capability returns normally, the detection operation returns one
  record per raw row, and a row whose class id has no entry in the label table of the
  model gets the label \<open>class_\<close> followed by the decimal id (for id 7, \<open>class_7\<close>);
  resolving the label raises nothing.
\<close>

theorem label_fallback:
  assumes "model w = Some m"
    and "predict m \<lparr>source = p, conf = t, iou = 45 / 100, device = ''cpu'',
                     verbose = False, save = False\<rparr> (uploads w p) = Inr (r # rs)"
    and "boxes r = Some bs"
  shows "fst (process_with_yolo w p t) = Inr (map (make_detection (names m)) bs)
         \<and> (\<forall>b \<in> set bs. map_of (names m) (py_int (box_cls b)) = None \<longrightarrow>
               det_class_id (make_detection (names m) b) = py_int (box_cls b)
               \<and> det_class (make_detection (names m) b)
                    = ''class_'' @ str_int (py_int (box_cls b)))"
  using process_with_yolo_rows [OF assms] by (simp add: make_detection_label)

lemma sample_predict:
  "predict sample_model c content = Inr [\<lparr>boxes = Some sample_boxes\<rparr>]"
  by (simp add: sample_model_def)

theorem label_fallback_witness:
  "fst (process_with_yolo sample_world ''a.jpg'' (1 / 4)) = Inr sample_detections
   \<and> map_of (names sample_model) 7 = None
   \<and> det_class_id (sample_detections ! 1) = 7
   \<and> det_class (sample_detections ! 1) = ''class_7''"
proof -
  have m: "model sample_world = Some sample_model"
    by (simp add: sample_world_def)
  have b: "boxes \<lparr>boxes = Some sample_boxes\<rparr> = Some sample_boxes"
    by simp
  from label_fallback [OF m sample_predict b, of "''a.jpg''" "1 / 4"]
  show ?thesis
    by (simp add: sample_detections_def [symmetric])
      (simp add: sample_detections_eval sample_model_def)
qed

text \<open>
  Claim C9, as amended. Every record returned by the detection operation has its width
  and height equal to the differences of its corners rounded to single precision, and its
  centre equal to the sums of its corners rounded to single precision and halved in single
  precision. A width or height that is finite differs from the exact difference by at
  most \<open>2 ^ -150\<close> plus the fraction \<open>2 ^ -24\<close> of it, and a finite centre coordinate
  from the exact mean by at most \<open>2 ^ -149\<close> plus the fraction \<open>2 ^ -23\<close> of the sum.
\<close>

theorem derived_fields_single_precision:
  assumes "process_with_yolo w p t = (Inr ds, w')" and "d \<in> set ds"
  shows "det_x d = np_div2 (f32_round (det_x1 d + det_x2 d))
         \<and> det_y d = np_div2 (f32_round (det_y1 d + det_y2 d))
         \<and> det_width d = f32_round (det_x2 d - det_x1 d)
         \<and> det_height d = f32_round (det_y2 d - det_y1 d)
         \<and> (\<forall>v. det_x d = Finite v \<longrightarrow>
               \<bar>v - (det_x1 d + det_x2 d) / 2\<bar> \<le> 1 / 2 ^ 149 + \<bar>det_x1 d + det_x2 d\<bar> / 2 ^ 23)
         \<and> (\<forall>v. det_y d = Finite v \<longrightarrow>
               \<bar>v - (det_y1 d + det_y2 d) / 2\<bar> \<le> 1 / 2 ^ 149 + \<bar>det_y1 d + det_y2 d\<bar> / 2 ^ 23)
         \<and> (\<forall>v. det_width d = Finite v \<longrightarrow>
               \<bar>v - (det_x2 d - det_x1 d)\<bar> \<le> 1 / 2 ^ 150 + \<bar>det_x2 d - det_x1 d\<bar> / 2 ^ 24)
         \<and> (\<forall>v. det_height d = Finite v \<longrightarrow>
               \<bar>v - (det_y2 d - det_y1 d)\<bar> \<le> 1 / 2 ^ 150 + \<bar>det_y2 d - det_y1 d\<bar> / 2 ^ 24)"
proof -
  from process_with_yolo_made [OF assms]
  obtain m :: yolo and b where "d = make_detection (names m) b"
    by blast
  then have eqs: "det_x d = np_div2 (f32_round (det_x1 d + det_x2 d))"
    "det_y d = np_div2 (f32_round (det_y1 d + det_y2 d))"
    "det_width d = f32_round (det_x2 d - det_x1 d)"
    "det_height d = f32_round (det_y2 d - det_y1 d)"
    by (simp_all add: make_detection_def Let_def split: prod.splits)
  show ?thesis
    using eqs np_div2_error f32_round_error by metis
qed

lemma sample_run:
  "process_with_yolo sample_world ''a.jpg'' t =
     (Inr sample_detections,
      sample_world\<lparr>predict_calls :=
        [\<lparr>source = ''a.jpg'', conf = t, iou = 45 / 100, device = ''cpu'',
          verbose = False, save = False\<rparr>]\<rparr>)"
  by (simp add: process_with_yolo_def sample_world_def sample_predict sample_detections_def
      sample_boxes_def Let_def)

lemma rounding_detection_eval:
  "rounding_detection =
     \<lparr>det_class = ''flare'', det_class_id = 0, det_confidence = 3 / 4,
      det_x = Finite (301 / 2), det_y = Finite (5033165 / 33554432),
      det_width = Finite (3289907 / 32768), det_height = Finite (13421773 / 134217728),
      det_x1 = 6573261 / 65536, det_y1 = 13421773 / 134217728,
      det_x2 = 13153075 / 65536, det_y2 = 13421773 / 67108864\<rparr>"
  by (simp add: rounding_detection_def rounding_box_def make_detection_def py_int_def
      dict_get_def f32_round_def round_half_even_def Let_def)

lemma rounding_run:
  "process_with_yolo rounding_world ''a.jpg'' t =
     (Inr [rounding_detection],
      rounding_world\<lparr>predict_calls :=
        [\<lparr>source = ''a.jpg'', conf = t, iou = 45 / 100, device = ''cpu'',
          verbose = False, save = False\<rparr>]\<rparr>)"
  by (simp add: process_with_yolo_def rounding_world_def rounding_detection_def Let_def)

theorem derived_fields_single_precision_witness:
  "det_y rounding_detection = np_div2 (f32_round (det_y1 rounding_detection + det_y2 rounding_detection))
   \<and> det_y rounding_detection = Finite (5033165 / 33554432)
   \<and> \<bar>5033165 / 33554432 - (det_y1 rounding_detection + det_y2 rounding_detection) / 2\<bar>
       \<le> 1 / 2 ^ 149 + \<bar>det_y1 rounding_detection + det_y2 rounding_detection\<bar> / 2 ^ 23
   \<and> det_width rounding_detection = Finite (det_x2 rounding_detection - det_x1 rounding_detection)"
proof -
  have mem: "rounding_detection \<in> set [rounding_detection]"
    by simp
  have y: "det_y rounding_detection = Finite (5033165 / 33554432)"
    by (simp add: rounding_detection_eval)
  from derived_fields_single_precision [OF rounding_run [of "1 / 4"] mem] y
  have "det_y rounding_detection =
          np_div2 (f32_round (det_y1 rounding_detection + det_y2 rounding_detection))"
    and "\<bar>5033165 / 33554432 - (det_y1 rounding_detection + det_y2 rounding_detection) / 2\<bar>
       \<le> 1 / 2 ^ 149 + \<bar>det_y1 rounding_detection + det_y2 rounding_detection\<bar> / 2 ^ 23"
    by blast+
  moreover have "det_width rounding_detection
      = Finite (det_x2 rounding_detection - det_x1 rounding_detection)"
    by (simp add: rounding_detection_eval)
  ultimately show ?thesis
    using y by simp
qed

text \<open>
  Claim C9 as stated fails. The model reports the box whose corners are the
  single-precision values nearest to 100.3, 0.1, 200.7 and 0.2; each corner is a
  single-precision value. The record returned has \<open>y = 5033165 / 33554432\<close>, and the
  mean of its \<open>y1\<close> and \<open>y2\<close> is \<open>40265319 / 268435456\<close>.
\<close>

theorem derived_fields_exact_counterexample:
  "fst (process_with_yolo rounding_world ''a.jpg'' (1 / 4)) = Inr [rounding_detection]
   \<and> f32_round (det_y1 rounding_detection) = Finite (det_y1 rounding_detection)
   \<and> f32_round (det_y2 rounding_detection) = Finite (det_y2 rounding_detection)
   \<and> det_y rounding_detection = Finite (5033165 / 33554432)
   \<and> (det_y1 rounding_detection + det_y2 rounding_detection) / 2 = 40265319 / 268435456
   \<and> det_y rounding_detection
       \<noteq> Finite ((det_y1 rounding_detection + det_y2 rounding_detection) / 2)"
  by (simp add: rounding_run)
    (simp add: rounding_detection_eval f32_round_def round_half_even_def Let_def)

section \<open>The process endpoint\<close>

lemma process_image_try_undecodable:
  assumes "uf_filename file = Some fname" and "imdecode e (uf_contents file) = None"
  shows "process_image_try e w m file c u t0 t1 =
           (Inl (HTTPException 400 ''Could not load the image''),
            w\<lparr>uploads := (uploads w)(u @ file_extension_of e fname \<mapsto> uf_contents file)\<rparr>)"
  using assms
  by (simp add: process_image_try_def cv2_imread_def Let_def)

lemma process_image_try_calls:
  assumes "model w = Some m" and "uf_filename file = Some fname"
    and "imdecode e (uf_contents file) = Some img"
  shows "predict_calls (snd (process_image_try e w m file c u t0 t1)) =
           predict_calls w @
             [\<lparr>source = u @ file_extension_of e fname, conf = c, iou = 45 / 100,
               device = ''cpu'', verbose = False, save = False\<rparr>]"
proof -
  define fn where "fn = u @ file_extension_of e fname"
  define w2 where
    "w2 = w\<lparr>uploads := (uploads w)(fn \<mapsto> uf_contents file), heap := heap w @ [img]\<rparr>"
  obtain r w3 where run: "process_with_yolo w2 fn c = (r, w3)"
    by (metis surj_pair)
  have "model w2 = Some m"
    using assms(1) by (simp add: w2_def)
  from process_with_yolo_world [OF this, of fn c] run
  have w3: "w3 = w2\<lparr>predict_calls := predict_calls w2 @
              [\<lparr>source = fn, conf = c, iou = 45 / 100, device = ''cpu'',
                verbose = False, save = False\<rparr>]\<rparr>"
    by simp
  have calls3: "predict_calls w3 = predict_calls w @
             [\<lparr>source = fn, conf = c, iou = 45 / 100,
               device = ''cpu'', verbose = False, save = False\<rparr>]"
    by (simp add: w3 w2_def)
  show ?thesis
    using assms(2,3) run calls3
    by (cases r)
      (simp_all add: process_image_try_def cv2_imread_def
        fn_def [symmetric] w2_def [symmetric] Let_def split: prod.splits sum.splits)
qed

lemma sample_model_loaded: "model sample_world = Some sample_model"
  by (simp add: sample_world_def)

lemma png_upload_decodes:
  "uf_filename png_upload = Some ''flare.png''"
  "imdecode sample_env (uf_contents png_upload) = Some sample_image"
  by (simp_all add: png_upload_def sample_env_def)

lemma text_upload_undecodable:
  "uf_filename text_upload = Some ''notes.txt''"
  "imdecode sample_env (uf_contents text_upload) = None"
  by (simp_all add: text_upload_def sample_env_def)

text \<open>
  Claim C1, as amended. With a model loaded, the detection operation calls the capability
  once more, with \<open>conf\<close> equal to the \<open>confidence_threshold\<close> it was given, whatever
  that value is; and the process endpoint, for an upload that decodes, passes its
  \<open>confidence\<close> parameter on unchanged. Nothing clamps or rejects the value.
\<close>

theorem confidence_threshold_forwarded:
  assumes "model w = Some m"
  shows "predict_calls (snd (process_with_yolo w p t)) =
           predict_calls w @
             [\<lparr>source = p, conf = t, iou = 45 / 100, device = ''cpu'',
               verbose = False, save = False\<rparr>]
         \<and> (uf_filename file = Some fname \<and> imdecode e (uf_contents file) = Some img \<longrightarrow>
              map conf (predict_calls (snd (process_image e w file t u t0 t1))) =
                map conf (predict_calls w) @ [t])"
proof
  show "predict_calls (snd (process_with_yolo w p t)) =
           predict_calls w @
             [\<lparr>source = p, conf = t, iou = 45 / 100, device = ''cpu'',
               verbose = False, save = False\<rparr>]"
    by (simp add: process_with_yolo_world [OF assms])
next
  show "uf_filename file = Some fname \<and> imdecode e (uf_contents file) = Some img \<longrightarrow>
              map conf (predict_calls (snd (process_image e w file t u t0 t1))) =
                map conf (predict_calls w) @ [t]"
  proof
    assume a: "uf_filename file = Some fname \<and> imdecode e (uf_contents file) = Some img"
    have "predict_calls (snd (process_image e w file t u t0 t1)) =
            predict_calls (snd (process_image_try e w m file t u t0 t1))"
      using assms by (simp add: process_image_def split: prod.splits sum.splits)
    moreover from a have f: "uf_filename file = Some fname"
      and i: "imdecode e (uf_contents file) = Some img"
      by simp_all
    ultimately show "map conf (predict_calls (snd (process_image e w file t u t0 t1))) =
                map conf (predict_calls w) @ [t]"
      using process_image_try_calls [OF assms f i] by simp
  qed
qed

theorem confidence_threshold_forwarded_witness:
  "predict_calls (snd (process_with_yolo sample_world ''a.jpg'' 2)) =
     [\<lparr>source = ''a.jpg'', conf = 2, iou = 45 / 100, device = ''cpu'',
       verbose = False, save = False\<rparr>]
   \<and> map conf (predict_calls (snd (process_image sample_env sample_world png_upload 2
         ''u1'' 0 1))) = [2]"
  using confidence_threshold_forwarded [OF sample_model_loaded, of "''a.jpg''" 2 png_upload
      "''flare.png''" sample_env sample_image "''u1''" 0 1]
  by (simp add: png_upload_decodes) (simp add: sample_world_def)

text \<open>
  Claim C1 as stated fails: with threshold 0 the detection operation returns its
  detections, and the capability has been called with \<open>conf = 0\<close>, outside \<open>(0, 1]\<close>.
\<close>

theorem threshold_zero_reaches_capability:
  "fst (process_with_yolo sample_world ''a.jpg'' 0) = Inr sample_detections
   \<and> predict_calls (snd (process_with_yolo sample_world ''a.jpg'' 0)) =
       [\<lparr>source = ''a.jpg'', conf = 0, iou = 45 / 100, device = ''cpu'',
         verbose = False, save = False\<rparr>]
   \<and> \<not> (0 < conf (last (predict_calls (snd (process_with_yolo sample_world ''a.jpg'' 0))))
          \<and> conf (last (predict_calls (snd (process_with_yolo sample_world ''a.jpg'' 0)))) \<le> 1)"
  by (simp add: sample_run)

text \<open>
  An upload that does not decode: the \<^verbatim>\<open>HTTPException\<close> with status 400 is raised
  inside the \<^verbatim>\<open>try\<close> block, caught by \<^verbatim>\<open>except Exception\<close> and raised again with
  status 500. The upload has been written by then; nothing is written under the results.
\<close>

lemma undecodable_upload:
  assumes "model w = Some m" and "uf_filename file = Some fname"
    and "imdecode e (uf_contents file) = None"
  shows "process_image e w file c u t0 t1 =
           (Inl (HTTPException 500 ''Processing error: 400: Could not load the image''),
            w\<lparr>uploads := (uploads w)(u @ file_extension_of e fname \<mapsto> uf_contents file)\<rparr>)"
  using assms
  by (simp add: process_image_def process_image_try_undecodable str_int_def str_nat.simps
      digit_char_def)

text \<open>
  Claim C2 at a concrete input: the bytes \<open>hello\<close> uploaded as \<open>notes.txt\<close>. The endpoint
  answers with status 500, not with the status 400 of a rejected input; the results stay
  empty and the upload is stored.
\<close>

theorem undecodable_upload_status_500:
  "process_image sample_env sample_world text_upload (1 / 4) ''u1'' 0 1 =
     (Inl (HTTPException 500 ''Processing error: 400: Could not load the image''),
      sample_world\<lparr>uploads := [''u1.txt'' \<mapsto> ''hello'']\<rparr>)"
  using undecodable_upload [OF sample_model_loaded text_upload_undecodable,
      of "1 / 4" "''u1''" 0 1]
  by (simp add: file_extension_of_def sample_env_def text_upload_def sample_world_def)

text \<open>
  Claim C10. When the model is \<open>None\<close>, the process endpoint raises an
  \<^verbatim>\<open>HTTPException\<close> with status 503 and the world is unchanged: no upload and no
  result is written, and the capability is not called.
\<close>

theorem model_unavailable_no_effect:
  assumes "model w = None"
  shows "process_image e w file c u t0 t1 =
           (Inl (HTTPException 503 ''YOLO model is not loaded''), w)"
  using assms by (simp add: process_image_def)

theorem model_unavailable_no_effect_witness:
  "process_image sample_env (sample_world\<lparr>model := None\<rparr>) png_upload (1 / 4) ''u1'' 0 1 =
     (Inl (HTTPException 503 ''YOLO model is not loaded''), sample_world\<lparr>model := None\<rparr>)"
proof -
  have "model (sample_world\<lparr>model := None\<rparr>) = None"
    by simp
  from model_unavailable_no_effect [OF this] show ?thesis .
qed

end
